theory Spec2Isabelle
  imports Main
begin

section \<open>Strings\<close>

text \<open>
  Python \<open>str\<close> values are modelled as \<open>string\<close>; a character is read as the code point
  of that number (the Latin-1 range).  Inside that range \<open>\d\<close> is exactly the ten ASCII
  digits, \<open>[A-Z0-9]\<close> is ASCII by definition, \<open>str.isspace\<close> holds for the code points
  9-13, 28-32, 133 and 160, and \<open>str.lower\<close> moves A-Z and the accented capitals
  192-222 (without 215) up by 32.
\<close>

definition is_digit :: "char \<Rightarrow> bool" where
  "is_digit c = (c \<in> set ''0123456789'')"

definition is_upper_or_digit :: "char \<Rightarrow> bool" where
  "is_upper_or_digit c = (c \<in> set ''ABCDEFGHIJKLMNOPQRSTUVWXYZ0123456789'')"

definition is_space :: "char \<Rightarrow> bool" where
  "is_space c = (let n = (of_char c :: nat) in
     (9 \<le> n \<and> n \<le> 13) \<or> (28 \<le> n \<and> n \<le> 32) \<or> n = 133 \<or> n = 160)"

definition lower_char :: "char \<Rightarrow> char" where
  "lower_char c =
     (case map_of (zip ''ABCDEFGHIJKLMNOPQRSTUVWXYZ'' ''abcdefghijklmnopqrstuvwxyz'') c of
        Some l \<Rightarrow> l
      | None \<Rightarrow>
          (let n = (of_char c :: nat) in
           if 192 \<le> n \<and> n \<le> 222 \<and> n \<noteq> 215 then char_of (n + 32) else c))"

definition lower :: "string \<Rightarrow> string" where
  "lower s = map lower_char s"

definition strip :: "string \<Rightarrow> string" where
  "strip s = rev (dropWhile is_space (rev (dropWhile is_space s)))"

fun starts_with :: "string \<Rightarrow> string \<Rightarrow> bool" where
  "starts_with s [] = True"
| "starts_with [] (p # ps) = False"
| "starts_with (c # cs) (p # ps) = (c = p \<and> starts_with cs ps)"

text \<open>\<open>sub in s\<close> of Python, \<open>s.includes(sub)\<close> of JavaScript.\<close>

fun contains :: "string \<Rightarrow> string \<Rightarrow> bool" where
  "contains [] sub = (sub = [])"
| "contains (c # cs) sub = (starts_with (c # cs) sub \<or> contains cs sub)"

text \<open>\<open>str(n)\<close> for a natural number.\<close>

fun str_nat :: "nat \<Rightarrow> string" where
  "str_nat n =
     (if n < 10 then [''0123456789'' ! n]
      else str_nat (n div 10) @ [''0123456789'' ! (n mod 10)])"

declare str_nat.simps [simp del]

definition str_int :: "int \<Rightarrow> string" where
  "str_int i = (if i < 0 then ''-'' @ str_nat (nat (- i)) else str_nat (nat i))"

text \<open>A text between two double quotes, for the selectors that contain them.\<close>

definition dq :: "string \<Rightarrow> string" where
  "dq s = CHR 0x22 # s @ [CHR 0x22]"

text \<open>A text between two single quotes.\<close>

definition sq :: "string \<Rightarrow> string" where
  "sq s = CHR 0x27 # s @ [CHR 0x27]"

definition str_bool :: "bool \<Rightarrow> string" where
  "str_bool b = (if b then ''True'' else ''False'')"

section \<open>The regular expressions of the scraper\<close>

text \<open>
  Every pattern the program searches for has the shape: a fixed number of single-character
  tests followed by one greedy character class with \<open>+\<close>.  Such a pattern is a pair of
  the list of tests and the class.  \<open>re.search\<close> returns the leftmost match; the greedy
  \<open>+\<close> at the end of the pattern takes the longest run.
\<close>

type_synonym pattern = "(char \<Rightarrow> bool) list \<times> (char \<Rightarrow> bool)"

definition lit :: "string \<Rightarrow> (char \<Rightarrow> bool) list" where
  "lit s = map (\<lambda>a c. c = a) s"

text \<open>\<open>advertiser/([A-Z0-9]+)\<close>\<close>
definition pat_advertiser :: pattern where
  "pat_advertiser = (lit ''advertiser/'', is_upper_or_digit)"

text \<open>\<open>AR\d+\<close>\<close>
definition pat_AR :: pattern where
  "pat_AR = (lit ''AR'', is_digit)"

text \<open>\<open>[?&]id=([A-Z0-9]+)\<close>\<close>
definition pat_id_param :: pattern where
  "pat_id_param = ((\<lambda>c. c \<in> set ''?&'') # lit ''id='', is_upper_or_digit)"

text \<open>The fixed part of a pattern, matched at the head of the text; the rest of the text.\<close>

fun match_fixed :: "(char \<Rightarrow> bool) list \<Rightarrow> string \<Rightarrow> string option" where
  "match_fixed [] s = Some s"
| "match_fixed (p # ps) [] = None"
| "match_fixed (p # ps) (c # cs) = (if p c then match_fixed ps cs else None)"

text \<open>A match that starts at the head of the text: the text of the fixed part and the run.\<close>

definition match_at :: "pattern \<Rightarrow> string \<Rightarrow> (string \<times> string) option" where
  "match_at pat s =
     (case match_fixed (fst pat) s of
        None \<Rightarrow> None
      | Some rest \<Rightarrow>
          (let run = takeWhile (snd pat) rest
           in if run = [] then None else Some (take (length (fst pat)) s, run)))"

fun re_search :: "pattern \<Rightarrow> string \<Rightarrow> (string \<times> string) option" where
  "re_search pat [] = match_at pat []"
| "re_search pat (c # cs) =
     (case match_at pat (c # cs) of
        Some m \<Rightarrow> Some m
      | None \<Rightarrow> re_search pat cs)"

text \<open>\<open>m.group(0)\<close> is the whole match, \<open>m.group(1)\<close> the run in parentheses.\<close>

definition group0 :: "string \<times> string \<Rightarrow> string" where
  "group0 m = fst m @ snd m"

definition group1 :: "string \<times> string \<Rightarrow> string" where
  "group1 m = snd m"

subsection \<open>The three searches of extract_advertiser_id_from_url\<close>


subsection \<open>What it means for a pattern to match\<close>





section \<open>Exceptions, log records and browser calls\<close>

text \<open>
  The exceptions the program can see.  \<open>playwright.async_api.TimeoutError\<close> is a subclass
  of \<open>playwright.async_api.Error\<close>, which is a subclass of \<open>Exception\<close>, as is
  \<open>fastapi.HTTPException\<close>.  \<open>OtherException\<close> stands for any other subclass of
  \<open>Exception\<close>.  \<open>asyncio.CancelledError\<close> and \<open>KeyboardInterrupt\<close> are subclasses of
  \<open>BaseException\<close> only: \<open>except Exception\<close> does not catch them.  They can arrive
  while the program waits for a call to finish.
\<close>

datatype exn =
    PlaywrightError string
  | PlaywrightTimeoutError string
  | HTTPException nat string
  | OtherException string
  | CancelledError
  | KeyboardInterrupt

text \<open>\<open>except Error\<close>, \<open>except TimeoutError\<close> and \<open>except Exception\<close>.\<close>

fun is_Error :: "exn \<Rightarrow> bool" where
  "is_Error (PlaywrightError m) = True"
| "is_Error (PlaywrightTimeoutError m) = True"
| "is_Error (HTTPException c d) = False"
| "is_Error (OtherException m) = False"
| "is_Error CancelledError = False"
| "is_Error KeyboardInterrupt = False"

fun is_TimeoutError :: "exn \<Rightarrow> bool" where
  "is_TimeoutError (PlaywrightTimeoutError m) = True"
| "is_TimeoutError (PlaywrightError m) = False"
| "is_TimeoutError (HTTPException c d) = False"
| "is_TimeoutError (OtherException m) = False"
| "is_TimeoutError CancelledError = False"
| "is_TimeoutError KeyboardInterrupt = False"

fun is_Exception :: "exn \<Rightarrow> bool" where
  "is_Exception (PlaywrightError m) = True"
| "is_Exception (PlaywrightTimeoutError m) = True"
| "is_Exception (HTTPException c d) = True"
| "is_Exception (OtherException m) = True"
| "is_Exception CancelledError = False"
| "is_Exception KeyboardInterrupt = False"

text \<open>
  \<open>str(e)\<close>.  For an HTTP exception this is the status code, a colon and the detail, as
  Starlette defines \<open>HTTPException.__str__\<close>.
\<close>

fun str_exn :: "exn \<Rightarrow> string" where
  "str_exn (PlaywrightError m) = m"
| "str_exn (PlaywrightTimeoutError m) = m"
| "str_exn (HTTPException c d) = str_nat c @ '': '' @ d"
| "str_exn (OtherException m) = m"
| "str_exn CancelledError = []"
| "str_exn KeyboardInterrupt = []"

datatype level = INFO | WARNING | ERROR

text \<open>
  The calls the program makes on Playwright objects, with the arguments that matter.
  A timeout argument is \<open>None\<close> where the call passes none.
\<close>

datatype call =
    Start
  | Launch
  | NewContext
  | SetDefaultTimeout nat
  | SetDefaultNavigationTimeout int
  | SetPageDefaultTimeout int
  | NewPage
  | Goto string "nat option"
  | Screenshot string
  | WaitForLoadState string "nat option"
  | WaitForSelector string nat
  | QuerySelector string
  | ElementClick
  | ElementFill string
  | ElementPress string
  | WaitForTimeout nat
  | PageClick string
  | KeyboardPress string
  | KeyboardType string
  | Content
  | EvaluateLocationHref
  | EvaluateClickFirstResult
  | EvaluatePotentialIds string
  | EvaluateVideoCount
  | EvaluateSearchInput
  | Close
  | Stop

datatype event =
    Log level string
  | LogTraceback exn
  | Browser call

section \<open>The browser as an environment\<close>

text \<open>
  The browser and the page it shows are outside the program.  Every call on a Playwright
  object takes one tick of a clock; what the call does is decided by the environment as a
  function of the tick: whether it raises, and otherwise what it returns.  A theorem for
  all environments therefore holds for every behaviour of the browser, also one that
  changes between two calls.
\<close>

text \<open>
  What the four BeautifulSoup queries of \<open>get_page_content\<close> find in a parsed page, in
  document order:
  \<^item> for every \<open>span\<close> whose string contains the placeholder text, the first \<open>input\<close>
    inside the parent of the span as text, or \<open>None\<close> when there is no parent or no input;
  \<^item> every \<open>input\<close> with a class that contains \<open>search\<close>, \<open>query\<close> or
    \<open>input-area\<close>, as text;
  \<^item> for every element whose role is \<open>search\<close>, \<open>searchbox\<close> or \<open>combobox\<close>, the
    first \<open>input\<close> inside it as text, or \<open>None\<close>;
  \<^item> for a word, for every \<open>div\<close>, \<open>section\<close> or \<open>form\<close> with a string that contains
    the word, the first \<open>input\<close> inside it as text, or \<open>None\<close>.
\<close>

record soup_view =
  placeholder_span_inputs :: "string option list"
  class_inputs :: "string list"
  role_element_inputs :: "string option list"
  container_inputs :: "string \<Rightarrow> string option list"

text \<open>
  The fields of the environment: whether the call at a tick raises; whether
  \<open>query_selector\<close> finds an element; \<open>page.url\<close>; \<open>window.location.href\<close>; the
  number of elements \<open>document.querySelectorAll\<close> finds for a selector; \<open>page.content()\<close>;
  the list the script of \<open>extract_advertiser_id_from_content\<close> collects;
  \<open>document.body.innerText\<close>; the \<open>outerHTML\<close> of the first element
  \<open>document.querySelector\<close> finds for a selector; the parser of BeautifulSoup.
\<close>

record world =
  fails :: "nat \<Rightarrow> exn option"
  selector_found :: "nat \<Rightarrow> bool"
  page_url :: "nat \<Rightarrow> string"
  location_href :: "nat \<Rightarrow> string"
  count_matching :: "nat \<Rightarrow> string \<Rightarrow> nat"
  page_content :: "nat \<Rightarrow> string"
  potential_ids :: "nat \<Rightarrow> string list"
  body_text :: "nat \<Rightarrow> string"
  first_outer_html :: "nat \<Rightarrow> string \<Rightarrow> string option"
  soup :: "string \<Rightarrow> soup_view"

text \<open>What a run has done so far: the clock and the log records and calls in order.\<close>

record io =
  clock :: nat
  trace :: "event list"

section \<open>Statements\<close>

text \<open>
  A function body is a list of statements over the local variables of the function and the
  \<open>io\<close> state.  A statement ends normally, leaves the enclosing loop (\<open>break\<close>), returns
  from the function, or raises.
\<close>

datatype 'r outcome = Normal | Break | Return 'r | Raise exn

record 'l state =
  now :: nat
  events :: "event list"
  locals :: 'l

type_synonym ('l, 'r) stmt = "'l state \<Rightarrow> 'r outcome \<times> 'l state"

definition skip :: "('l, 'r) stmt" where
  "skip s = (Normal, s)"

definition seq :: "('l, 'r) stmt \<Rightarrow> ('l, 'r) stmt \<Rightarrow> ('l, 'r) stmt" where
  "seq a b s = (case a s of (Normal, s1) \<Rightarrow> b s1 | (out, s1) \<Rightarrow> (out, s1))"

fun block :: "('l, 'r) stmt list \<Rightarrow> ('l, 'r) stmt" where
  "block [] = skip"
| "block (a # as) = seq a (block as)"

definition assign :: "('l \<Rightarrow> 'l) \<Rightarrow> ('l, 'r) stmt" where
  "assign f s = (Normal, s\<lparr>locals := f (locals s)\<rparr>)"

text \<open>A statement that reads the local variables.\<close>

definition using_locals :: "('l \<Rightarrow> ('l, 'r) stmt) \<Rightarrow> ('l, 'r) stmt" where
  "using_locals f s = f (locals s) s"

definition if_then_else ::
  "('l \<Rightarrow> bool) \<Rightarrow> ('l, 'r) stmt \<Rightarrow> ('l, 'r) stmt \<Rightarrow> ('l, 'r) stmt" where
  "if_then_else c a b s = (if c (locals s) then a s else b s)"

definition if_then :: "('l \<Rightarrow> bool) \<Rightarrow> ('l, 'r) stmt \<Rightarrow> ('l, 'r) stmt" where
  "if_then c a = if_then_else c a skip"

text \<open>
  \<open>x = d[k]\<close> for a dictionary \<open>d\<close> held in a local variable: the value stored for the
  key, or \<open>KeyError\<close> when there is none.
\<close>

definition subscript ::
  "('l \<Rightarrow> ('k \<times> 'v) list) \<Rightarrow> 'k \<Rightarrow> ('v \<Rightarrow> 'l \<Rightarrow> 'l) \<Rightarrow> ('l, 'r) stmt" where
  "subscript d k store s =
     (case map_of (d (locals s)) k of
        Some v \<Rightarrow> (Normal, s\<lparr>locals := store v (locals s)\<rparr>)
      | None \<Rightarrow> (Raise (OtherException ''KeyError''), s))"

definition return :: "('l \<Rightarrow> 'r) \<Rightarrow> ('l, 'r) stmt" where
  "return f s = (Return (f (locals s)), s)"

definition raise :: "('l \<Rightarrow> exn) \<Rightarrow> ('l, 'r) stmt" where
  "raise f s = (Raise (f (locals s)), s)"

definition break :: "('l, 'r) stmt" where
  "break s = (Break, s)"

text \<open>\<open>try: body except C as e: handler\<close>, where \<open>C\<close> is given by the test \<open>catches\<close>.\<close>

definition try_except ::
  "('l, 'r) stmt \<Rightarrow> (exn \<Rightarrow> bool) \<Rightarrow> (exn \<Rightarrow> ('l, 'r) stmt) \<Rightarrow> ('l, 'r) stmt" where
  "try_except body catches handler s =
     (case body s of
        (Raise e, s1) \<Rightarrow> if catches e then handler e s1 else (Raise e, s1)
      | (out, s1) \<Rightarrow> (out, s1))"

text \<open>
  \<open>try: body finally: final\<close>.  The final block runs whatever the body did; when it
  ends normally the outcome of the body stands, otherwise its own outcome replaces it.
\<close>

definition try_finally :: "('l, 'r) stmt \<Rightarrow> ('l, 'r) stmt \<Rightarrow> ('l, 'r) stmt" where
  "try_finally body final s =
     (case body s of
        (out, s1) \<Rightarrow>
          (case final s1 of
             (Normal, s2) \<Rightarrow> (out, s2)
           | (out2, s2) \<Rightarrow> (out2, s2)))"

text \<open>\<open>for x in xs: body\<close>.\<close>

fun for_each :: "'a list \<Rightarrow> ('a \<Rightarrow> ('l, 'r) stmt) \<Rightarrow> ('l, 'r) stmt" where
  "for_each [] body s = (Normal, s)"
| "for_each (x # xs) body s =
     (case body x s of
        (Normal, s1) \<Rightarrow> for_each xs body s1
      | (Break, s1) \<Rightarrow> (Normal, s1)
      | (out, s1) \<Rightarrow> (out, s1))"

text \<open>\<open>logging.info\<close>, \<open>logging.warning\<close>, \<open>logging.error\<close>.\<close>

definition log :: "level \<Rightarrow> string \<Rightarrow> ('l, 'r) stmt" where
  "log lvl msg s = (Normal, s\<lparr>events := events s @ [Log lvl msg]\<rparr>)"

text \<open>\<open>logging.error(traceback.format_exc())\<close> inside the handler of \<open>e\<close>.\<close>

definition log_traceback :: "exn \<Rightarrow> ('l, 'r) stmt" where
  "log_traceback e s = (Normal, s\<lparr>events := events s @ [LogTraceback e]\<rparr>)"

text \<open>
  A call on a Playwright object: one tick of the clock and one record in the trace; it
  raises when the environment says so, and otherwise stores what the environment returns.
\<close>

definition browser_call ::
  "world \<Rightarrow> call \<Rightarrow> (nat \<Rightarrow> 'l \<Rightarrow> 'l) \<Rightarrow> ('l, 'r) stmt" where
  "browser_call w c store s =
     (let t = now s;
          s1 = s\<lparr>now := Suc t, events := events s @ [Browser c]\<rparr>
      in case fails w t of
           Some e \<Rightarrow> (Raise e, s1)
         | None \<Rightarrow> (Normal, s1\<lparr>locals := store t (locals s1)\<rparr>))"

text \<open>Reading the property \<open>page.url\<close>: no call, no tick.\<close>

definition read_page_url :: "world \<Rightarrow> (string \<Rightarrow> 'l \<Rightarrow> 'l) \<Rightarrow> ('l, 'r) stmt" where
  "read_page_url w store s = (Normal, s\<lparr>locals := store (page_url w (now s)) (locals s)\<rparr>)"

definition unit_call :: "world \<Rightarrow> call \<Rightarrow> ('l, 'r) stmt" where
  "unit_call w c = browser_call w c (\<lambda>t l. l)"

text \<open>
  Running a function body: it starts with fresh local variables on the caller's \<open>io\<close>
  state.  A body that ends without \<open>return\<close> returns \<open>None\<close>, here the value \<open>none\<close>.
\<close>

definition run :: "('l, 'r) stmt \<Rightarrow> 'r \<Rightarrow> 'l \<Rightarrow> io \<Rightarrow> (exn + 'r) \<times> io" where
  "run body none init i =
     (case body \<lparr>now = clock i, events = trace i, locals = init\<rparr> of
        (out, s) \<Rightarrow>
          ((case out of Return r \<Rightarrow> Inr r | Raise e \<Rightarrow> Inl e | Normal \<Rightarrow> Inr none | Break \<Rightarrow> Inr none),
           \<lparr>clock = now s, trace = events s\<rparr>))"

text \<open>\<open>x = f(...)\<close> and \<open>x = await f(...)\<close>: the function runs on the caller's \<open>io\<close> state.\<close>

definition invoke ::
  "(io \<Rightarrow> (exn + 'a) \<times> io) \<Rightarrow> ('a \<Rightarrow> 'l \<Rightarrow> 'l) \<Rightarrow> ('l, 'r) stmt" where
  "invoke f store s =
     (case f \<lparr>clock = now s, trace = events s\<rparr> of
        (res, i) \<Rightarrow>
          (let s1 = s\<lparr>now := clock i, events := trace i\<rparr>
           in case res of
                Inl e \<Rightarrow> (Raise e, s1)
              | Inr v \<Rightarrow> (Normal, s1\<lparr>locals := store v (locals s1)\<rparr>)))"

section \<open>The functions of main.py\<close>

subsection \<open>extract_advertiser_id_from_url\<close>

definition extract_advertiser_id_from_url :: "string \<Rightarrow> io \<Rightarrow> (exn + string option) \<times> io" where
  "extract_advertiser_id_from_url url =
     run (block [
       log INFO (''Extracting advertiser ID from URL: '' @ url),
       (case re_search pat_advertiser url of
          Some advertiser_id_match \<Rightarrow> block [
            log INFO (''Found advertiser ID in URL: '' @ group1 advertiser_id_match),
            return (\<lambda>l. Some (group1 advertiser_id_match))]
        | None \<Rightarrow> skip),
       (case re_search pat_AR url of
          Some ar_match \<Rightarrow> block [
            log INFO (''Found AR ID in URL: '' @ group0 ar_match),
            return (\<lambda>l. Some (group0 ar_match))]
        | None \<Rightarrow> skip),
       (case re_search pat_id_param url of
          Some id_param_match \<Rightarrow> block [
            log INFO (''Found ID in query parameter: '' @ group1 id_param_match),
            return (\<lambda>l. Some (group1 id_param_match))]
        | None \<Rightarrow> skip),
       log INFO ''No advertiser ID found in URL'',
       return (\<lambda>l. None)
     ]) None ()"

subsection \<open>extract_advertiser_id_from_content\<close>

text \<open>
  \<open>re.findall(r'AR\d+|advertiser\/([A-Z0-9]+)', content)\<close>: the matches from left to right
  without overlap; at an index the first alternative is tried first.  The pattern has one
  group, so the list holds the text of the group for every match: the empty string for a
  match of the first alternative, where the group takes no part.  The first argument
  counts the characters of the last match that are still to be passed.
\<close>

fun findall_ids :: "nat \<Rightarrow> string \<Rightarrow> string list" where
  "findall_ids k [] = []"
| "findall_ids (Suc k) (c # cs) = findall_ids k cs"
| "findall_ids 0 (c # cs) =
     (case match_at pat_AR (c # cs) of
        Some m \<Rightarrow> [] # findall_ids (length (group0 m) - 1) cs
      | None \<Rightarrow>
          (case match_at pat_advertiser (c # cs) of
             Some m \<Rightarrow> group1 m # findall_ids (length (group0 m) - 1) cs
           | None \<Rightarrow> findall_ids 0 cs))"

text \<open>Python's truth value of an optional string and the text an f-string gives it.\<close>

fun truthy :: "string option \<Rightarrow> bool" where
  "truthy None = False"
| "truthy (Some v) = (v \<noteq> [])"

fun str_opt :: "string option \<Rightarrow> string" where
  "str_opt None = ''None''"
| "str_opt (Some v) = v"

record content_locals =
  c_advertiser_id :: "string option"
  c_content :: string
  c_matches :: "string list"
  c_valid_matches :: "string list"
  c_tuple_matches :: "string list"
  c_all_matches :: "string list"
  c_js_result :: "string list"

definition content_locals_init :: content_locals where
  "content_locals_init =
     \<lparr>c_advertiser_id = None, c_content = [], c_matches = [], c_valid_matches = [],
      c_tuple_matches = [], c_all_matches = [], c_js_result = []\<rparr>"

text \<open>
  The elements of \<open>matches\<close> are strings, never tuples, so \<open>tuple_matches\<close> is empty and
  \<open>valid_matches\<close> keeps the strings that are not empty.
\<close>

definition extract_advertiser_id_from_content ::
  "world \<Rightarrow> string \<Rightarrow> io \<Rightarrow> (exn + string option) \<times> io" where
  "extract_advertiser_id_from_content w advertiser_name =
     run (block [
       log INFO ''Trying to extract advertiser ID from page content'',
       unit_call w (Screenshot ''screenshots/page_content.png''),
       assign (\<lambda>l. l\<lparr>c_advertiser_id := None\<rparr>),
       try_except (block [
         browser_call w Content (\<lambda>t l. l\<lparr>c_content := page_content w t\<rparr>),
         assign (\<lambda>l. l\<lparr>c_matches := findall_ids 0 (c_content l)\<rparr>),
         if_then (\<lambda>l. c_matches l \<noteq> []) (block [
           assign (\<lambda>l. l\<lparr>c_valid_matches := filter (\<lambda>m. m \<noteq> []) (c_matches l)\<rparr>),
           assign (\<lambda>l. l\<lparr>c_tuple_matches := []\<rparr>),
           assign (\<lambda>l. l\<lparr>c_all_matches := c_valid_matches l @ c_tuple_matches l\<rparr>),
           if_then (\<lambda>l. c_all_matches l \<noteq> []) (block [
             assign (\<lambda>l. l\<lparr>c_advertiser_id := Some (hd (c_all_matches l))\<rparr>),
             using_locals (\<lambda>l. log INFO
               (''Found advertiser ID in page content: '' @ str_opt (c_advertiser_id l))),
             return c_advertiser_id])]),
         try_except (block [
           browser_call w (EvaluatePotentialIds (lower advertiser_name))
             (\<lambda>t l. l\<lparr>c_js_result := potential_ids w t\<rparr>),
           if_then (\<lambda>l. c_js_result l \<noteq> [] \<and> length (c_js_result l) > 0) (block [
             assign (\<lambda>l. l\<lparr>c_advertiser_id := Some (hd (c_js_result l))\<rparr>),
             using_locals (\<lambda>l. log INFO
               (''Found advertiser ID via JS: '' @ str_opt (c_advertiser_id l))),
             return c_advertiser_id])])
           is_Exception
           (\<lambda>e. log WARNING (''Error in JS extraction: '' @ str_exn e))])
         is_Exception
         (\<lambda>e. log ERROR (''Error extracting from page content: '' @ str_exn e)),
       return (\<lambda>l. None)
     ]) None content_locals_init"

subsection \<open>get_advertiser_id\<close>

text \<open>
  Lines 135-137: the dictionary literal.  The function binds it to its local variable
  \<open>known_ids\<close> at every call.
\<close>

definition known_ids_literal :: "(string \<times> string) list" where
  "known_ids_literal = [(''adidas'', ''AR14017378248766259201'')]"

record id_locals =
  known_ids :: "(string \<times> string) list"
  g_browser :: bool
  g_advertiser_id :: "string option"
  g_search_input :: bool
  g_pre_search_url :: string
  g_current_url :: string
  g_clicked :: bool

definition id_locals_init :: id_locals where
  "id_locals_init =
     \<lparr>known_ids = [], g_browser = False, g_advertiser_id = None, g_search_input = False, g_pre_search_url = [],
      g_current_url = [], g_clicked = False\<rparr>"

text \<open>Lines 217-237: one turn of the loop of strategy 1 that reads the URL.\<close>

definition strategy_1_url_attempt :: "world \<Rightarrow> nat \<Rightarrow> (id_locals, string option) stmt" where
  "strategy_1_url_attempt w attempt =
     block [
       try_except (block [
         log INFO (''Attempt '' @ str_nat (attempt + 1) @ '' to get current URL via JavaScript''),
         browser_call w EvaluateLocationHref (\<lambda>t l. l\<lparr>g_current_url := location_href w t\<rparr>),
         using_locals (\<lambda>l. log INFO (''Current URL from JavaScript: '' @ g_current_url l)),
         if_then (\<lambda>l. g_current_url l \<noteq> [] \<and> g_current_url l \<noteq> g_pre_search_url l) (block [
           log INFO ''URL changed after search'',
           using_locals (\<lambda>l. invoke (extract_advertiser_id_from_url (g_current_url l))
             (\<lambda>v l. l\<lparr>g_advertiser_id := v\<rparr>)),
           if_then (\<lambda>l. truthy (g_advertiser_id l)) (block [
             using_locals (\<lambda>l. log INFO
               (''Found advertiser ID in URL: '' @ str_opt (g_advertiser_id l))),
             return g_advertiser_id]),
           break])])
         is_Error
         (\<lambda>e. log WARNING (''Error getting URL via JavaScript: '' @ str_exn e)),
       unit_call w (WaitForTimeout 2000)]"

text \<open>Line 216: \<open>for attempt in range(3)\<close>.\<close>

definition strategy_1_url_attempts :: "world \<Rightarrow> (id_locals, string option) stmt" where
  "strategy_1_url_attempts w = for_each [0, 1, 2] (strategy_1_url_attempt w)"

text \<open>
  Lines 246-280: the script that clicks the first search result.  It returns true when one
  of the six selectors, or else one of the four class patterns, finds an element.
\<close>

definition result_selectors :: "string list" where
  "result_selectors =
     [''material-list material-list-item'',
      ''div[role='listbox'] div[role='option']'',
      ''.search-results-container .search-result'',
      ''[role='list'] [role='listitem']'',
      ''[role='tab']'',
      ''material-list-item'']"

definition result_class_patterns :: "string list" where
  "result_class_patterns = [''result'', ''item'', ''option'', ''listitem'']"

definition class_contains_selector :: "string \<Rightarrow> string" where
  "class_contains_selector pattern = ''*[class*='' @ dq pattern @ '']''"

definition click_first_result :: "world \<Rightarrow> nat \<Rightarrow> bool" where
  "click_first_result w t =
     (list_ex (\<lambda>selector. 0 < count_matching w t selector) result_selectors \<or>
      list_ex (\<lambda>pattern. 0 < count_matching w t (class_contains_selector pattern))
        result_class_patterns)"

text \<open>Lines 244-301.\<close>

definition strategy_1_click_results :: "world \<Rightarrow> (id_locals, string option) stmt" where
  "strategy_1_click_results w =
     try_except (block [
       browser_call w EvaluateClickFirstResult (\<lambda>t l. l\<lparr>g_clicked := click_first_result w t\<rparr>),
       if_then g_clicked (block [
         log INFO ''Clicked a search result using JavaScript'',
         unit_call w (WaitForTimeout 3000),
         try_except (block [
           browser_call w EvaluateLocationHref (\<lambda>t l. l\<lparr>g_current_url := location_href w t\<rparr>),
           using_locals (\<lambda>l. log INFO (''URL after clicking result: '' @ g_current_url l)),
           using_locals (\<lambda>l. invoke (extract_advertiser_id_from_url (g_current_url l))
             (\<lambda>v l. l\<lparr>g_advertiser_id := v\<rparr>)),
           if_then (\<lambda>l. truthy (g_advertiser_id l)) (block [
             using_locals (\<lambda>l. log INFO
               (''Found advertiser ID after clicking: '' @ str_opt (g_advertiser_id l))),
             return g_advertiser_id])])
           is_Error
           (\<lambda>e. log WARNING (''Error getting URL after clicking: '' @ str_exn e))])])
       is_Error
       (\<lambda>e. log WARNING (''Error trying to click search results: '' @ str_exn e))"

text \<open>Lines 170-310.\<close>

definition strategy_1 :: "world \<Rightarrow> string \<Rightarrow> (id_locals, string option) stmt" where
  "strategy_1 w advertiser_name =
     try_except (block [
       log INFO ''Trying Strategy 1: Direct input selection'',
       unit_call w (WaitForLoadState ''domcontentloaded'' None),
       unit_call w (WaitForSelector ''input.input.input-area'' 10000),
       browser_call w (QuerySelector ''input.input.input-area'')
         (\<lambda>t l. l\<lparr>g_search_input := selector_found w t\<rparr>),
       if_then_else g_search_input (block [
         unit_call w ElementClick,
         unit_call w (WaitForTimeout 500),
         unit_call w (ElementFill []),
         unit_call w (WaitForTimeout 300),
         unit_call w (ElementFill advertiser_name),
         log INFO (''Entered advertiser name: '' @ advertiser_name),
         unit_call w (Screenshot ''screenshots/before_search.png''),
         read_page_url w (\<lambda>v l. l\<lparr>g_pre_search_url := v\<rparr>),
         using_locals (\<lambda>l. log INFO (''URL before search: '' @ g_pre_search_url l)),
         unit_call w (ElementPress ''Enter''),
         log INFO ''Pressed Enter to submit search'',
         unit_call w (WaitForTimeout 2000),
         try_except (block [
           unit_call w (WaitForLoadState ''domcontentloaded'' (Some 10000)),
           log INFO ''Page DOM content loaded after search''])
           is_TimeoutError
           (\<lambda>e. log WARNING ''Timeout waiting for DOM content load, continuing anyway''),
         unit_call w (Screenshot ''screenshots/after_search.png''),
         strategy_1_url_attempts w,
         log INFO ''Checking for search results to click'',
         unit_call w (Screenshot ''screenshots/before_clicking_results.png''),
         strategy_1_click_results w,
         if_then (\<lambda>l. \<not> truthy (g_advertiser_id l))
           (invoke (extract_advertiser_id_from_content w advertiser_name)
              (\<lambda>v l. l\<lparr>g_advertiser_id := v\<rparr>))])
         (log WARNING ''Could not find search input with expected selector'')])
       is_Exception
       (\<lambda>e. block [
          log ERROR (''Error with strategy 1: '' @ str_exn e),
          unit_call w (Screenshot ''screenshots/strategy1_error.png'')])"

text \<open>Lines 342-354: one turn of the loop of strategy 2 that reads the URL.\<close>

definition strategy_2_url_attempt :: "world \<Rightarrow> nat \<Rightarrow> (id_locals, string option) stmt" where
  "strategy_2_url_attempt w attempt =
     block [
       try_except (block [
         browser_call w EvaluateLocationHref (\<lambda>t l. l\<lparr>g_current_url := location_href w t\<rparr>),
         using_locals (\<lambda>l. log INFO (''Strategy 2 URL: '' @ g_current_url l)),
         if_then (\<lambda>l. g_current_url l \<noteq> [] \<and> g_current_url l \<noteq> g_pre_search_url l) (block [
           using_locals (\<lambda>l. invoke (extract_advertiser_id_from_url (g_current_url l))
             (\<lambda>v l. l\<lparr>g_advertiser_id := v\<rparr>)),
           if_then (\<lambda>l. truthy (g_advertiser_id l)) (block [
             using_locals (\<lambda>l. log INFO
               (''Found advertiser ID in strategy 2: '' @ str_opt (g_advertiser_id l))),
             return g_advertiser_id])])])
         is_Error
         (\<lambda>e. log WARNING (''Error getting URL in strategy 2: '' @ str_exn e)),
       unit_call w (WaitForTimeout 2000)]"

text \<open>Line 341: \<open>for attempt in range(3)\<close>.\<close>

definition strategy_2_url_attempts :: "world \<Rightarrow> (id_locals, string option) stmt" where
  "strategy_2_url_attempts w = for_each [0, 1, 2] (strategy_2_url_attempt w)"

text \<open>Lines 312-361.\<close>

definition strategy_2 :: "world \<Rightarrow> string \<Rightarrow> (id_locals, string option) stmt" where
  "strategy_2 w advertiser_name =
     if_then (\<lambda>l. \<not> truthy (g_advertiser_id l))
       (try_except (block [
          log INFO ''Trying Strategy 2: Using keyboard navigation'',
          unit_call w (Goto ''https://adstransparency.google.com/'' None),
          unit_call w (WaitForLoadState ''domcontentloaded'' None),
          unit_call w (PageClick ''body''),
          for_each [0, 1, 2 :: nat] (\<lambda>x. block [
            unit_call w (KeyboardPress ''Tab''),
            unit_call w (WaitForTimeout 300)]),
          unit_call w (KeyboardType advertiser_name),
          log INFO (''Entered advertiser name using keyboard: '' @ advertiser_name),
          browser_call w EvaluateLocationHref (\<lambda>t l. l\<lparr>g_pre_search_url := location_href w t\<rparr>),
          unit_call w (KeyboardPress ''Enter''),
          log INFO ''Pressed Enter to submit search'',
          unit_call w (WaitForTimeout 3000),
          strategy_2_url_attempts w,
          if_then (\<lambda>l. \<not> truthy (g_advertiser_id l))
            (invoke (extract_advertiser_id_from_content w advertiser_name)
               (\<lambda>v l. l\<lparr>g_advertiser_id := v\<rparr>))])
          is_Exception
          (\<lambda>e. block [
             log ERROR (''Error with strategy 2: '' @ str_exn e),
             unit_call w (Screenshot ''screenshots/strategy2_error.png'')]))"

text \<open>Lines 147-368: the body of the outer \<open>try\<close>.\<close>

definition get_advertiser_id_session :: "world \<Rightarrow> string \<Rightarrow> (id_locals, string option) stmt" where
  "get_advertiser_id_session w advertiser_name =
     block [
       unit_call w Start,
       browser_call w Launch (\<lambda>t l. l\<lparr>g_browser := True\<rparr>),
       unit_call w NewContext,
       unit_call w (SetDefaultTimeout 90000),
       unit_call w NewPage,
       log INFO ''Navigating to https://adstransparency.google.com/'',
       unit_call w (Goto ''https://adstransparency.google.com/'' None),
       unit_call w (Screenshot ''screenshots/initial_page.png''),
       log INFO ''Page loaded, looking for search input'',
       assign (\<lambda>l. l\<lparr>g_advertiser_id := None\<rparr>),
       strategy_1 w advertiser_name,
       strategy_2 w advertiser_name,
       if_then_else (\<lambda>l. truthy (g_advertiser_id l))
         (block [
            using_locals (\<lambda>l. log INFO (''Found advertiser ID: '' @ str_opt (g_advertiser_id l))),
            return g_advertiser_id])
         (block [
            log WARNING ''No advertiser ID found'',
            return (\<lambda>l. None)])]"

text \<open>Lines 370-374: the handler of the outer \<open>try\<close>.\<close>

definition get_advertiser_id_handler :: "exn \<Rightarrow> (id_locals, string option) stmt" where
  "get_advertiser_id_handler e =
     block [
       log ERROR (''Error in get_advertiser_id: '' @ str_exn e),
       log_traceback e,
       return (\<lambda>l. None)]"

text \<open>
  Lines 131-377: the body of the function.
\<close>

definition get_advertiser_id_body :: "world \<Rightarrow> string \<Rightarrow> (id_locals, string option) stmt" where
  "get_advertiser_id_body w advertiser_name =
     block [
       log INFO (''Searching for advertiser ID for: '' @ advertiser_name),
       assign (\<lambda>l. l\<lparr>known_ids := known_ids_literal\<rparr>),
       if_then (\<lambda>l. lower advertiser_name \<in> set (map fst (known_ids l))) (block [
         subscript known_ids (lower advertiser_name) (\<lambda>v l. l\<lparr>g_advertiser_id := Some v\<rparr>),
         using_locals (\<lambda>l. log INFO (''Using known advertiser ID for '' @ advertiser_name
           @ '': '' @ str_opt (g_advertiser_id l))),
         return g_advertiser_id]),
       assign (\<lambda>l. l\<lparr>g_browser := False\<rparr>),
       try_finally
         (try_except (get_advertiser_id_session w advertiser_name)
            is_Exception get_advertiser_id_handler)
         (if_then g_browser (unit_call w Close))]"

definition get_advertiser_id :: "world \<Rightarrow> string \<Rightarrow> io \<Rightarrow> (exn + string option) \<times> io" where
  "get_advertiser_id w advertiser_name =
     run (get_advertiser_id_body w advertiser_name) None id_locals_init"

subsection \<open>check_advertiser_videos\<close>

text \<open>
  Lines 768-770: the dictionary literal.  The function binds it to its local variable
  \<open>known_video_counts\<close> at every call.
\<close>

definition known_video_counts_literal :: "(string \<times> int) list" where
  "known_video_counts_literal = [(''AR14017378248766259201'', 34)]"

text \<open>
  Lines 807-848: the script that counts video elements.  It returns the number of elements
  of the first of nine selectors that finds any; failing that 0 when the text of the page
  contains one of five phrases; failing that the number of elements that look like ads.
\<close>

definition video_selectors :: "string list" where
  "video_selectors =
     [''video'',
      ''iframe[src*='' @ dq ''youtube'' @ '']'',
      ''iframe[src*='' @ dq ''vimeo'' @ '']'',
      ''div[role='' @ dq ''region'' @ ''][aria-label*='' @ dq ''carousel'' @ '']'',
      ''.video-container'',
      ''div[class*='' @ dq ''video'' @ '']'',
      ''div[id*='' @ dq ''video'' @ '']'',
      ''div[class*='' @ dq ''carousel'' @ '']'',
      ''div[class*='' @ dq ''slider'' @ '']'']"

definition no_video_texts :: "string list" where
  "no_video_texts =
     [''no video ads'', ''no videos'', ''no ads found'', ''no results'', ''no ads to show'']"

definition ad_selector :: string where
  "ad_selector = ''div[class*='' @ dq ''ad'' @ ''], div[id*='' @ dq ''ad''
     @ ''], div[aria-label*='' @ dq ''ad'' @ '']''"

definition video_count_script :: "world \<Rightarrow> nat \<Rightarrow> nat" where
  "video_count_script w t =
     (case List.find (\<lambda>selector. 0 < count_matching w t selector) video_selectors of
        Some selector \<Rightarrow> count_matching w t selector
      | None \<Rightarrow>
          if list_ex (\<lambda>text. contains (lower (body_text w t)) text) no_video_texts then 0
          else if 0 < count_matching w t ad_selector then count_matching w t ad_selector
          else 0)"

record video_locals =
  known_video_counts :: "(string \<times> int) list"
  v_browser :: bool
  v_video_count :: int
  v_has_videos :: bool

definition video_locals_init :: video_locals where
  "video_locals_init = \<lparr>known_video_counts = [], v_browser = False, v_video_count = 0, v_has_videos = False\<rparr>"

definition video_url :: "string \<Rightarrow> string" where
  "video_url advertiser_id =
     ''https://adstransparency.google.com/advertiser/'' @ advertiser_id
       @ ''?region=US&format=VIDEO''"

text \<open>Lines 799-856: the body of the inner \<open>try\<close>.\<close>

definition check_advertiser_videos_page ::
  "world \<Rightarrow> string \<Rightarrow> (video_locals, bool \<times> int option) stmt" where
  "check_advertiser_videos_page w advertiser_id =
     block [
       unit_call w (Goto (video_url advertiser_id) (Some 45000)),
       unit_call w (Screenshot (''screenshots/'' @ advertiser_id @ ''_video_page.png'')),
       unit_call w (WaitForLoadState ''domcontentloaded'' None),
       browser_call w EvaluateVideoCount
         (\<lambda>t l. l\<lparr>v_video_count := int (video_count_script w t)\<rparr>),
       assign (\<lambda>l. l\<lparr>v_has_videos := (v_video_count l > 0)\<rparr>),
       using_locals (\<lambda>l. log INFO (''Advertiser '' @ advertiser_id @ '' has_videos: ''
         @ str_bool (v_has_videos l) @ '', video_count: '' @ str_int (v_video_count l))),
       unit_call w (Screenshot (''screenshots/'' @ advertiser_id @ ''_video_detection.png'')),
       return (\<lambda>l. (v_has_videos l, Some (v_video_count l)))]"

text \<open>Lines 857-861 and 862-866: the two handlers, with the same text.\<close>

definition check_advertiser_videos_handler ::
  "exn \<Rightarrow> (video_locals, bool \<times> int option) stmt" where
  "check_advertiser_videos_handler e =
     block [
       log ERROR (''Error checking for videos: '' @ str_exn e),
       log_traceback e,
       return (\<lambda>l. (False, None))]"

text \<open>Lines 780-861: the body of the outer \<open>try\<close>.\<close>

definition check_advertiser_videos_session ::
  "world \<Rightarrow> string \<Rightarrow> (video_locals, bool \<times> int option) stmt" where
  "check_advertiser_videos_session w advertiser_id =
     block [
       unit_call w Start,
       browser_call w Launch (\<lambda>t l. l\<lparr>v_browser := True\<rparr>),
       unit_call w NewContext,
       unit_call w (SetDefaultTimeout 60000),
       unit_call w NewPage,
       log INFO (''Navigating to video page: '' @ video_url advertiser_id),
       try_except (check_advertiser_videos_page w advertiser_id)
         is_Exception check_advertiser_videos_handler]"

text \<open>
  A function that ends without \<open>return\<close> returns \<open>None\<close>; no path of this function
  does, and the model gives that case the pair of the handlers.
\<close>

definition check_advertiser_videos_body ::
  "world \<Rightarrow> string \<Rightarrow> (video_locals, bool \<times> int option) stmt" where
  "check_advertiser_videos_body w advertiser_id =
     block [
       log INFO (''Checking for videos for advertiser ID: '' @ advertiser_id),
       assign (\<lambda>l. l\<lparr>known_video_counts := known_video_counts_literal\<rparr>),
       if_then (\<lambda>l. advertiser_id \<in> set (map fst (known_video_counts l))) (block [
         subscript known_video_counts advertiser_id (\<lambda>v l. l\<lparr>v_video_count := v\<rparr>),
         using_locals (\<lambda>l. log INFO (''Using known video count for '' @ advertiser_id
           @ '': '' @ str_int (v_video_count l))),
         return (\<lambda>l. (True, Some (v_video_count l)))]),
       assign (\<lambda>l. l\<lparr>v_browser := False\<rparr>),
       try_finally
         (try_except (check_advertiser_videos_session w advertiser_id)
            is_Exception check_advertiser_videos_handler)
         (if_then v_browser (unit_call w Close))]"

definition check_advertiser_videos ::
  "world \<Rightarrow> string \<Rightarrow> io \<Rightarrow> (exn + bool \<times> int option) \<times> io" where
  "check_advertiser_videos w advertiser_id =
     run (check_advertiser_videos_body w advertiser_id) (False, None) video_locals_init"

subsection \<open>The endpoints\<close>

record advertiser_request =
  advertiser_name :: string

record advertiser_response =
  advertiser_google_id :: "string option"
  has_videos :: "bool option"
  video_count :: "int option"

record ping_response =
  status :: string
  timestamp :: string
  version :: string

text \<open>
  \<open>ping\<close>; the argument is the text of \<open>datetime.datetime.now().isoformat()\<close> at the
  time of the call.
\<close>

definition ping :: "string \<Rightarrow> ping_response" where
  "ping now_isoformat = \<lparr>status = ''ok'', timestamp = now_isoformat, version = ''1.0.0''\<rparr>"

record endpoint_locals =
  e_advertiser_name :: string
  e_advertiser_id :: "string option"
  e_has_videos :: bool
  e_video_count :: "int option"

definition endpoint_locals_init :: endpoint_locals where
  "endpoint_locals_init =
     \<lparr>e_advertiser_name = [], e_advertiser_id = None, e_has_videos = False,
      e_video_count = None\<rparr>"

definition empty_response :: advertiser_response where
  "empty_response = \<lparr>advertiser_google_id = None, has_videos = None, video_count = None\<rparr>"

text \<open>
  \<open>scrape_advertiser_endpoint\<close>.  The call of \<open>check_advertiser_videos\<close> is reached only
  with an identifier that is not \<open>None\<close>.
\<close>

definition scrape_advertiser_endpoint ::
  "world \<Rightarrow> advertiser_request \<Rightarrow> io \<Rightarrow> (exn + advertiser_response) \<times> io" where
  "scrape_advertiser_endpoint w request =
     run (block [
       assign (\<lambda>l. l\<lparr>e_advertiser_name := strip (advertiser_name request)\<rparr>),
       if_then (\<lambda>l. e_advertiser_name l = [])
         (raise (\<lambda>l. HTTPException 400 ''Advertiser name cannot be empty'')),
       try_except (block [
         using_locals (\<lambda>l. invoke (get_advertiser_id w (e_advertiser_name l))
           (\<lambda>v l. l\<lparr>e_advertiser_id := v\<rparr>)),
         if_then (\<lambda>l. \<not> truthy (e_advertiser_id l))
           (raise (\<lambda>l. HTTPException 404
              (''No advertiser ID found for '' @ sq (e_advertiser_name l)))),
         using_locals (\<lambda>l.
           case e_advertiser_id l of
             Some advertiser_id \<Rightarrow>
               invoke (check_advertiser_videos w advertiser_id)
                 (\<lambda>v l. l\<lparr>e_has_videos := fst v, e_video_count := snd v\<rparr>)
           | None \<Rightarrow> skip),
         return (\<lambda>l. \<lparr>advertiser_google_id = e_advertiser_id l,
                       has_videos = Some (e_has_videos l),
                       video_count = e_video_count l\<rparr>)])
         is_Exception
         (\<lambda>e. block [
            log ERROR (''Error during scraping: '' @ str_exn e),
            log_traceback e,
            raise (\<lambda>l. HTTPException 500 (''Error during scraping: '' @ str_exn e))])
     ]) empty_response endpoint_locals_init"

text \<open>
  What the client of \<open>POST /scrape\<close> receives: the body with status 200, or the status and
  the detail of the HTTP exception the endpoint raised.  Any other \<open>Exception\<close> that left
  the endpoint would be answered by the server with status 500; an exception that is no
  \<open>Exception\<close> passes through the server too, and the client receives no response.
\<close>

datatype http_response =
    OK advertiser_response
  | HTTPError nat string
  | NoResponse exn

definition post_scrape :: "world \<Rightarrow> advertiser_request \<Rightarrow> io \<Rightarrow> http_response \<times> io" where
  "post_scrape w request i =
     (case scrape_advertiser_endpoint w request i of
        (Inr body, i1) \<Rightarrow> (OK body, i1)
      | (Inl (HTTPException code detail), i1) \<Rightarrow> (HTTPError code detail, i1)
      | (Inl e, i1) \<Rightarrow>
          (if is_Exception e then HTTPError 500 ''Internal Server Error'' else NoResponse e, i1))"

subsection \<open>The application and its routes\<close>

text \<open>
  A route has the HTTP methods it answers, a path and the function that answers.  The
  functions are the two endpoints of \<open>main.py\<close> and the four pages the framework serves
  about an application.
\<close>

datatype endpoint =
    PingEndpoint
  | ScrapeEndpoint
  | OpenAPISchema
  | SwaggerUI
  | SwaggerUIRedirect
  | ReDoc

record route =
  methods :: "string list"
  path :: string
  endpoint :: endpoint

text \<open>
  Line 71, \<open>FastAPI(title=...)\<close>: the application as the framework sets it up when, as
  here, none of \<open>openapi_url\<close>, \<open>docs_url\<close>, \<open>swagger_ui_oauth2_redirect_url\<close> and
  \<open>redoc_url\<close> is given.  Each of the four pages is added as a plain route, which
  answers \<open>GET\<close> and \<open>HEAD\<close>.
\<close>

definition FastAPI :: "string \<Rightarrow> route list" where
  "FastAPI title =
     [\<lparr>methods = [''GET'', ''HEAD''], path = ''/openapi.json'', endpoint = OpenAPISchema\<rparr>,
      \<lparr>methods = [''GET'', ''HEAD''], path = ''/docs'', endpoint = SwaggerUI\<rparr>,
      \<lparr>methods = [''GET'', ''HEAD''], path = ''/docs/oauth2-redirect'',
        endpoint = SwaggerUIRedirect\<rparr>,
      \<lparr>methods = [''GET'', ''HEAD''], path = ''/redoc'', endpoint = ReDoc\<rparr>]"

text \<open>
  The decorators \<open>@app.get(path)\<close> and \<open>@app.post(path)\<close> add a route for one method
  after the routes the application has.
\<close>

definition app_get :: "string \<Rightarrow> endpoint \<Rightarrow> route list \<Rightarrow> route list" where
  "app_get p f app = app @ [\<lparr>methods = [''GET''], path = p, endpoint = f\<rparr>]"

definition app_post :: "string \<Rightarrow> endpoint \<Rightarrow> route list \<Rightarrow> route list" where
  "app_post p f app = app @ [\<lparr>methods = [''POST''], path = p, endpoint = f\<rparr>]"

text \<open>Lines 71, 74 and 86.\<close>

definition app :: "route list" where
  "app =
     app_post ''/scrape'' ScrapeEndpoint
       (app_get ''/ping'' PingEndpoint
          (FastAPI ''Google Ads Transparency Scraper''))"

text \<open>The pairs of method and path an application answers.\<close>

definition served :: "route list \<Rightarrow> (string \<times> string) list" where
  "served rs = concat (map (\<lambda>r. map (\<lambda>m. (m, path r)) (methods r)) rs)"

subsection \<open>get_page_content\<close>

text \<open>
  \<open>str.splitlines\<close>: the lines of a text without their ends.  A line ends at a line
  feed, a carriage return (with the line feed after it, if any), and at the code points
  11, 12, 28, 29, 30 and 133.  The first argument is the line read so far, reversed.
\<close>

definition is_line_end :: "char \<Rightarrow> bool" where
  "is_line_end c = ((of_char c :: nat) \<in> set [10, 11, 12, 28, 29, 30, 133])"

fun splitlines_from :: "string \<Rightarrow> string \<Rightarrow> string list" where
  "splitlines_from line [] = (if line = [] then [] else [rev line])"
| "splitlines_from line [c] =
     (if c = CHR 0x0D \<or> is_line_end c then [rev line] else [rev (c # line)])"
| "splitlines_from line (c # d # cs) =
     (if c = CHR 0x0D \<and> d = CHR 0x0A then rev line # splitlines_from [] cs
      else if c = CHR 0x0D \<or> is_line_end c then rev line # splitlines_from [] (d # cs)
      else splitlines_from (c # line) (d # cs))"

definition splitlines :: "string \<Rightarrow> string list" where
  "splitlines s = splitlines_from [] s"

text \<open>
  Lines 596-625: the script that looks for the search input.  It returns the \<open>outerHTML\<close>
  of the first element of the first of ten selectors that finds one; failing that of the
  first \<open>input\<close> of the document; failing that the empty string.
\<close>

definition search_input_selectors :: "string list" where
  "search_input_selectors =
     [''input[type='' @ dq ''search'' @ '']'',
      ''input[placeholder*='' @ dq ''search'' @ '' i]'',
      ''input[placeholder*='' @ dq ''find'' @ '' i]'',
      ''input[aria-label*='' @ dq ''search'' @ '' i]'',
      ''input.search'',
      ''input.searchbox'',
      ''input.query'',
      ''input.input-area'',
      ''input[role='' @ dq ''search'' @ '']'',
      ''input[role='' @ dq ''searchbox'' @ '']'']"

fun first_some :: "('a \<Rightarrow> 'b option) \<Rightarrow> 'a list \<Rightarrow> 'b option" where
  "first_some f [] = None"
| "first_some f (x # xs) = (case f x of Some y \<Rightarrow> Some y | None \<Rightarrow> first_some f xs)"

definition search_input_script :: "world \<Rightarrow> nat \<Rightarrow> string" where
  "search_input_script w t =
     (case first_some (first_outer_html w t) search_input_selectors of
        Some html \<Rightarrow> html
      | None \<Rightarrow>
          (case first_outer_html w t ''input'' of
             Some html \<Rightarrow> html
           | None \<Rightarrow> []))"

record page_locals =
  p_content :: string
  p_dom_list :: "string list"
  p_soup :: soup_view
  p_search_input :: string
  p_search_containers :: "string option list"
  p_search_input_js :: string

definition page_locals_init :: page_locals where
  "page_locals_init =
     \<lparr>p_content = [], p_dom_list = [],
      p_soup = \<lparr>placeholder_span_inputs = [], class_inputs = [], role_element_inputs = [],
                container_inputs = (\<lambda>text. [])\<rparr>,
      p_search_input = [], p_search_containers = [], p_search_input_js = []\<rparr>"

text \<open>
  A loop over the elements a query found: the first element that has an input inside sets
  \<open>search_input\<close> to its text and leaves the loop.
\<close>

definition take_first_input :: "string option list \<Rightarrow> (page_locals, 'r) stmt" where
  "take_first_input found =
     for_each found (\<lambda>related_input.
       case related_input of
         Some html \<Rightarrow> block [assign (\<lambda>l. l\<lparr>p_search_input := html\<rparr>), break]
       | None \<Rightarrow> skip)"

text \<open>Lines 536-633: the search for the search input.\<close>

definition locate_search_input :: "world \<Rightarrow> (page_locals, 'r) stmt" where
  "locate_search_input w =
     block [
       assign (\<lambda>l. l\<lparr>p_search_input := []\<rparr>),
       using_locals (\<lambda>l. take_first_input (placeholder_span_inputs (p_soup l))),
       if_then (\<lambda>l. p_search_input l = [])
         (if_then (\<lambda>l. class_inputs (p_soup l) \<noteq> [])
            (assign (\<lambda>l. l\<lparr>p_search_input := hd (class_inputs (p_soup l))\<rparr>))),
       if_then (\<lambda>l. p_search_input l = [])
         (using_locals (\<lambda>l. take_first_input (role_element_inputs (p_soup l)))),
       if_then (\<lambda>l. p_search_input l = []) (block [
         assign (\<lambda>l. l\<lparr>p_search_containers := []\<rparr>),
         for_each [''search'', ''find'', ''lookup''] (\<lambda>text.
           assign (\<lambda>l. l\<lparr>p_search_containers :=
             p_search_containers l @ container_inputs (p_soup l) text\<rparr>)),
         using_locals (\<lambda>l. take_first_input (p_search_containers l))]),
       if_then (\<lambda>l. p_search_input l = []) (block [
         browser_call w EvaluateSearchInput
           (\<lambda>t l. l\<lparr>p_search_input_js := search_input_script w t\<rparr>),
         if_then (\<lambda>l. p_search_input_js l \<noteq> [])
           (assign (\<lambda>l. l\<lparr>p_search_input := p_search_input_js l\<rparr>))]),
       if_then (\<lambda>l. p_search_input l = []) (block [
         unit_call w (Screenshot ''search_input_not_found.png''),
         assign (\<lambda>l. l\<lparr>p_search_input := ''No search input found''\<rparr>)])]"

text \<open>Lines 518-638: the body of the \<open>try\<close>.\<close>

definition get_page_content_page :: "world \<Rightarrow> (page_locals, string list \<times> string) stmt" where
  "get_page_content_page w =
     block [
       unit_call w (Goto ''https://adstransparency.google.com/'' None),
       unit_call w (WaitForLoadState ''networkidle'' None),
       browser_call w Content (\<lambda>t l. l\<lparr>p_content := page_content w t\<rparr>),
       assign (\<lambda>l. l\<lparr>p_dom_list := splitlines (p_content l)\<rparr>),
       assign (\<lambda>l. l\<lparr>p_soup := soup w (p_content l)\<rparr>),
       locate_search_input w,
       return (\<lambda>l. (p_dom_list l, p_search_input l))]"

text \<open>
  \<open>get_page_content\<close>; its arguments are the values of the module constants
  \<open>NAVIGATION_TIMEOUT\<close> and \<open>WAIT_TIMEOUT\<close>.  The result is
  the pair of \<open>dom_content\<close> and \<open>search_input\<close>.  Leaving the \<open>async with\<close> block
  stops Playwright.
\<close>

definition get_page_content ::
  "world \<Rightarrow> int \<Rightarrow> int \<Rightarrow> io \<Rightarrow> (exn + string list \<times> string) \<times> io" where
  "get_page_content w navigation_timeout wait_timeout =
     run (block [
       unit_call w Start,
       try_finally (block [
         unit_call w Launch,
         unit_call w NewContext,
         unit_call w NewPage,
         unit_call w (SetDefaultNavigationTimeout navigation_timeout),
         unit_call w (SetPageDefaultTimeout wait_timeout),
         try_finally
           (try_except (get_page_content_page w)
              is_Exception
              (\<lambda>e. block [
                 try_except (unit_call w (Screenshot ''error_screenshot.png''))
                   is_Exception (\<lambda>e2. skip),
                 raise (\<lambda>l. OtherException (''Error getting page content: '' @ str_exn e))]))
           (unit_call w Close)])
         (unit_call w Stop)
     ]) ([], []) page_locals_init"

section \<open>Example environments\<close>

text \<open>
  A browser in which every call succeeds on a page that never changes and holds nothing
  the heuristics look for.
\<close>

definition no_inputs :: soup_view where
  "no_inputs =
     \<lparr>placeholder_span_inputs = [], class_inputs = [], role_element_inputs = [],
      container_inputs = (\<lambda>text. [])\<rparr>"

definition still_world :: world where
  "still_world =
     \<lparr>fails = (\<lambda>t. None),
      selector_found = (\<lambda>t. True),
      page_url = (\<lambda>t. ''https://adstransparency.google.com/''),
      location_href = (\<lambda>t. ''https://adstransparency.google.com/''),
      count_matching = (\<lambda>t selector. 0),
      page_content = (\<lambda>t. ''<html></html>''),
      potential_ids = (\<lambda>t. []),
      body_text = (\<lambda>t. []),
      first_outer_html = (\<lambda>t selector. None),
      soup = (\<lambda>content. no_inputs)\<rparr>"

text \<open>Playwright cannot start: the first call raises, and so would every later one.\<close>

definition no_browser_world :: world where
  "no_browser_world =
     still_world\<lparr>fails := (\<lambda>t. Some (PlaywrightError ''Executable does not exist''))\<rparr>"

text \<open>
  The browser starts and is launched (ticks 0 and 1); from then on the connection to it is
  lost and every call raises, the call that closes it too.
\<close>

definition lost_connection_world :: world where
  "lost_connection_world =
     still_world\<lparr>fails := (\<lambda>t. if t < 2 then None
                              else Some (PlaywrightError ''Connection lost''))\<rparr>"

text \<open>
  The search leads to the page of an advertiser, but the address of the page changes only
  after the first reading of it (tick 20): the second reading (tick 22) sees the new one.
\<close>

definition slow_navigation_world :: world where
  "slow_navigation_world =
     still_world\<lparr>location_href := (\<lambda>t. if t \<le> 20 then ''https://adstransparency.google.com/''
        else ''https://adstransparency.google.com/advertiser/AR77?region=US'')\<rparr>"

text \<open>
  A state in which a loop that reads the address begins: twenty calls have been made and
  the address before the search is the one of the start page.
\<close>

definition after_search :: "id_locals state" where
  "after_search =
     \<lparr>now = 20, events = [],
      locals = id_locals_init\<lparr>g_pre_search_url := ''https://adstransparency.google.com/''\<rparr>\<rparr>"

definition start_io :: io where
  "start_io = \<lparr>clock = 0, trace = []\<rparr>"

section \<open>Observations on a run\<close>

text \<open>
  The exception \<open>e\<close> was raised by the call that closes the browser, as the last thing
  the run did: the trace ends with that call, and at its tick the environment raised \<open>e\<close>.
\<close>

definition raised_by_close :: "world \<Rightarrow> exn \<Rightarrow> io \<Rightarrow> bool" where
  "raised_by_close w e i =
     (trace i \<noteq> [] \<and> last (trace i) = Browser Close \<and>
      0 < clock i \<and> fails w (clock i - 1) = Some e)"

text \<open>No call at a tick from \<open>a\<close> up to, not including, \<open>b\<close> raised.\<close>

definition calls_succeeded :: "world \<Rightarrow> nat \<Rightarrow> nat \<Rightarrow> bool" where
  "calls_succeeded w a b = (\<forall>t \<in> {a..<b}. fails w t = None)"

text \<open>
  How often a stretch of the trace reads the address of the page by script
  (\<open>page.evaluate("window.location.href")\<close>, lines 220 and 343).
\<close>

definition url_probes :: "event list \<Rightarrow> nat" where
  "url_probes evs = length (filter (\<lambda>ev. ev = Browser EvaluateLocationHref) evs)"


definition check_advertiser_videos_entry :: "string \<Rightarrow> io \<Rightarrow> video_locals state" where
  "check_advertiser_videos_entry aid i =
     \<lparr>now = clock i,
      events = trace i @ [Log INFO (''Checking for videos for advertiser ID: '' @ aid)],
      locals = video_locals_init\<lparr>known_video_counts := known_video_counts_literal,
        v_browser := False\<rparr>\<rparr>"

section \<open>Properties of the regular expressions\<close>

















subsection \<open>The precedence of the three URL patterns\<close>




section \<open>Running statements step by step\<close>

lemmas stmt_defs = run_def seq_def log_def log_traceback_def assign_def using_locals_def
  return_def raise_def break_def skip_def if_then_def if_then_else_def try_except_def
  try_finally_def browser_call_def unit_call_def read_page_url_def invoke_def subscript_def

lemma browser_call_cases:
  "browser_call w c store s =
     (case fails w (now s) of
        Some e \<Rightarrow> (Raise e, s\<lparr>now := Suc (now s), events := events s @ [Browser c]\<rparr>)
      | None \<Rightarrow> (Normal, s\<lparr>now := Suc (now s), events := events s @ [Browser c],
                             locals := store (now s) (locals s)\<rparr>))"
  by (simp add: browser_call_def Let_def split: option.splits)

lemma seq_browser_call:
  "seq (browser_call w c store) rest s =
     (case fails w (now s) of
        Some e \<Rightarrow> (Raise e, s\<lparr>now := Suc (now s), events := events s @ [Browser c]\<rparr>)
      | None \<Rightarrow> rest (s\<lparr>now := Suc (now s), events := events s @ [Browser c],
                         locals := store (now s) (locals s)\<rparr>))"
  by (simp add: seq_def browser_call_cases split: option.splits)

lemma seq_unit_call:
  "seq (unit_call w c) rest s =
     (case fails w (now s) of
        Some e \<Rightarrow> (Raise e, s\<lparr>now := Suc (now s), events := events s @ [Browser c]\<rparr>)
      | None \<Rightarrow> rest (s\<lparr>now := Suc (now s), events := events s @ [Browser c]\<rparr>))"
  by (simp add: unit_call_def seq_browser_call split: option.splits)

lemma seq_log: "seq (log lvl msg) rest s = rest (s\<lparr>events := events s @ [Log lvl msg]\<rparr>)"
  by (simp add: seq_def log_def)

lemma seq_log_traceback:
  "seq (log_traceback e) rest s = rest (s\<lparr>events := events s @ [LogTraceback e]\<rparr>)"
  by (simp add: seq_def log_traceback_def)

lemma seq_assign: "seq (assign f) rest s = rest (s\<lparr>locals := f (locals s)\<rparr>)"
  by (simp add: seq_def assign_def)

lemma seq_using_locals: "seq (using_locals f) rest s = seq (f (locals s)) rest s"
  by (simp add: seq_def using_locals_def)

lemma seq_return: "seq (return f) rest s = (Return (f (locals s)), s)"
  by (simp add: seq_def return_def)

lemma seq_raise: "seq (raise f) rest s = (Raise (f (locals s)), s)"
  by (simp add: seq_def raise_def)

lemma seq_break: "seq break rest s = (Break, s)"
  by (simp add: seq_def break_def)

lemma seq_skip: "seq skip rest s = rest s"
  by (simp add: seq_def skip_def)

lemma seq_read_page_url:
  "seq (read_page_url w store) rest s =
     rest (s\<lparr>locals := store (page_url w (now s)) (locals s)\<rparr>)"
  by (simp add: seq_def read_page_url_def)

lemma seq_subscript:
  "seq (subscript d k store) rest s =
     (case map_of (d (locals s)) k of
        Some v \<Rightarrow> rest (s\<lparr>locals := store v (locals s)\<rparr>)
      | None \<Rightarrow> (Raise (OtherException ''KeyError''), s))"
  by (simp add: seq_def subscript_def split: option.splits)

lemma seq_if_then_else:
  "seq (if_then_else c a b) rest s = (if c (locals s) then seq a rest s else seq b rest s)"
  by (simp add: seq_def if_then_else_def)

lemma seq_if_then:
  "seq (if_then c a) rest s = (if c (locals s) then seq a rest s else rest s)"
  by (simp add: if_then_def seq_if_then_else seq_skip)

lemma seq_seq: "seq (seq a b) rest s = seq a (seq b rest) s"
  by (simp add: seq_def split: prod.splits outcome.splits)

lemma seq_invoke:
  "seq (invoke f store) rest s =
     (case f \<lparr>clock = now s, trace = events s\<rparr> of
        (Inl e, i) \<Rightarrow> (Raise e, s\<lparr>now := clock i, events := trace i\<rparr>)
      | (Inr v, i) \<Rightarrow> rest (s\<lparr>now := clock i, events := trace i,
                                locals := store v (locals s)\<rparr>))"
  by (simp add: seq_def invoke_def Let_def split: prod.splits sum.splits)

lemmas step = seq_browser_call seq_unit_call seq_log seq_log_traceback seq_assign
  seq_using_locals seq_return seq_raise seq_break seq_skip seq_read_page_url seq_subscript
  seq_if_then_else seq_if_then seq_seq seq_invoke

lemma seq_end: "seq a skip = a"
  by (rule ext) (simp add: seq_def skip_def split: prod.splits outcome.splits)

lemmas exec = step seq_end log_def log_traceback_def assign_def using_locals_def return_def
  raise_def break_def skip_def if_then_def if_then_else_def browser_call_cases unit_call_def
  read_page_url_def subscript_def

lemma run_cases:
  "body \<lparr>now = clock i, events = trace i, locals = init\<rparr> = (out, s) \<Longrightarrow>
   run body none init i =
     ((case out of Return r \<Rightarrow> Inr r | Raise e \<Rightarrow> Inl e | Normal \<Rightarrow> Inr none
        | Break \<Rightarrow> Inr none),
      \<lparr>clock = now s, trace = events s\<rparr>)"
  by (simp add: run_def)

subsection \<open>The example environments\<close>

lemma fails_still_world: "fails still_world t = None"
  by (simp add: still_world_def)

lemma fails_no_browser_world:
  "fails no_browser_world t = Some (PlaywrightError ''Executable does not exist'')"
  by (simp add: no_browser_world_def still_world_def)

lemma fails_lost_connection_world:
  "fails lost_connection_world t =
     (if t < 2 then None else Some (PlaywrightError ''Connection lost''))"
  by (simp add: lost_connection_world_def still_world_def)

lemma lower_nike: "lower ''nike'' = ''nike''"
  by (simp add: lower_def lower_char_def)

lemma strip_nike: "strip ''nike'' = ''nike''"
  by (simp add: strip_def is_space_def)


section \<open>The two tables\<close>

lemma get_advertiser_id_body_known:
  assumes "lower name = ''adidas''"
  shows "get_advertiser_id_body w name s =
     (Return (Some ''AR14017378248766259201''),
      s\<lparr>events := events s @ map (Log INFO)
          [''Searching for advertiser ID for: '' @ name,
           ''Using known advertiser ID for '' @ name @ '': AR14017378248766259201''],
        locals := (locals s)\<lparr>known_ids := known_ids_literal,
          g_advertiser_id := Some ''AR14017378248766259201''\<rparr>\<rparr>)"
  using assms
  by (simp add: get_advertiser_id_body_def step known_ids_literal_def)

lemma get_advertiser_id_known:
  assumes "lower name = ''adidas''"
  shows "get_advertiser_id w name i =
     (Inr (Some ''AR14017378248766259201''),
      \<lparr>clock = clock i,
       trace = trace i @ map (Log INFO)
         [''Searching for advertiser ID for: '' @ name,
          ''Using known advertiser ID for '' @ name @ '': AR14017378248766259201'']\<rparr>)"
  by (simp add: get_advertiser_id_def run_def get_advertiser_id_body_known[OF assms])

lemma str_int_34: "str_int 34 = ''34''"
  by (simp add: str_int_def str_nat.simps)

lemma check_advertiser_videos_body_known:
  "check_advertiser_videos_body w ''AR14017378248766259201'' s =
     (Return (True, Some 34),
      s\<lparr>events := events s @ map (Log INFO)
          [''Checking for videos for advertiser ID: AR14017378248766259201'',
           ''Using known video count for AR14017378248766259201: 34''],
        locals := (locals s)\<lparr>known_video_counts := known_video_counts_literal,
          v_video_count := 34\<rparr>\<rparr>)"
  by (simp add: check_advertiser_videos_body_def step known_video_counts_literal_def str_int_34)

lemma check_advertiser_videos_known:
  "check_advertiser_videos w ''AR14017378248766259201'' i =
     (Inr (True, Some 34),
      \<lparr>clock = clock i,
       trace = trace i @ map (Log INFO)
         [''Checking for videos for advertiser ID: AR14017378248766259201'',
          ''Using known video count for AR14017378248766259201: 34'']\<rparr>)"
  by (simp add: check_advertiser_videos_def run_def check_advertiser_videos_body_known)

text \<open>
  Claim C1.  When the advertiser name of a request to \<open>POST /scrape\<close>, stripped of the
  white space around it and in lower case, is \<open>adidas\<close>, the response is the body with
  the identifier \<open>AR14017378248766259201\<close>, \<open>has_videos\<close> true and \<open>video_count\<close> 34.
  It comes from the two tables alone: in every environment and from every state the run
  makes no browser call (the clock stands still) and adds only log records.
\<close>

theorem scrape_adidas:
  assumes "lower (strip (advertiser_name request)) = ''adidas''"
  shows "\<exists>logs. post_scrape w request i =
     (OK \<lparr>advertiser_google_id = Some ''AR14017378248766259201'',
          has_videos = Some True, video_count = Some 34\<rparr>,
      \<lparr>clock = clock i, trace = trace i @ map (Log INFO) logs\<rparr>)"
proof -
  let ?name = "strip (advertiser_name request)"
  let ?id = "''AR14017378248766259201''"
  from assms have ne: "?name \<noteq> []" by (auto simp: lower_def)
  have "post_scrape w request i =
     (OK \<lparr>advertiser_google_id = Some ?id, has_videos = Some True, video_count = Some 34\<rparr>,
      \<lparr>clock = clock i, trace = trace i @ map (Log INFO)
         [''Searching for advertiser ID for: '' @ ?name,
          ''Using known advertiser ID for '' @ ?name @ '': AR14017378248766259201'',
          ''Checking for videos for advertiser ID: AR14017378248766259201'',
          ''Using known video count for AR14017378248766259201: 34'']\<rparr>)"
    using ne
    by (simp add: post_scrape_def scrape_advertiser_endpoint_def run_def seq_def assign_def
        if_then_def if_then_else_def skip_def try_except_def using_locals_def invoke_def
        get_advertiser_id_known[OF assms] check_advertiser_videos_known
        return_def endpoint_locals_init_def)
  then show ?thesis by (rule exI)
qed

theorem scrape_adidas_witness:
  "lower (strip (advertiser_name \<lparr>advertiser_name = '' AdiDas ''\<rparr>)) = ''adidas'' \<and>
   (\<exists>logs. post_scrape no_browser_world \<lparr>advertiser_name = '' AdiDas ''\<rparr> \<lparr>clock = 0, trace = []\<rparr> =
     (OK \<lparr>advertiser_google_id = Some ''AR14017378248766259201'',
          has_videos = Some True, video_count = Some 34\<rparr>,
      \<lparr>clock = 0, trace = map (Log INFO) logs\<rparr>))"
proof -
  have h: "lower (strip (advertiser_name \<lparr>advertiser_name = '' AdiDas ''\<rparr>)) = ''adidas''"
    by (simp add: lower_def strip_def is_space_def lower_char_def)
  show ?thesis
    using h scrape_adidas[OF h, of no_browser_world "\<lparr>clock = 0, trace = []\<rparr>"] by simp
qed


section \<open>The answer for a name that is not found\<close>

lemma str_nat_404: "str_nat 404 = ''404''"
  by (simp add: str_nat.simps)

lemma io_eta: "\<lparr>clock = clock i, trace = trace i\<rparr> = i"
  by simp

lemma get_advertiser_id_body_no_browser:
  assumes "lower name \<noteq> ''adidas''"
  shows "get_advertiser_id_body no_browser_world name s =
     (Return None,
      s\<lparr>now := Suc (now s),
        events := events s @
          [Log INFO (''Searching for advertiser ID for: '' @ name), Browser Start,
           Log ERROR ''Error in get_advertiser_id: Executable does not exist'',
           LogTraceback (PlaywrightError ''Executable does not exist'')],
        locals := (locals s)\<lparr>known_ids := known_ids_literal, g_browser := False\<rparr>\<rparr>)"
  using assms
  by (simp add: get_advertiser_id_body_def get_advertiser_id_session_def
      get_advertiser_id_handler_def exec try_finally_def try_except_def
      fails_no_browser_world known_ids_literal_def cong: prod.case_cong_weak)

lemma get_advertiser_id_no_browser_nike:
  "get_advertiser_id no_browser_world ''nike'' start_io =
     (Inr None,
      \<lparr>clock = 1,
       trace = [Log INFO ''Searching for advertiser ID for: nike'', Browser Start,
                Log ERROR ''Error in get_advertiser_id: Executable does not exist'',
                LogTraceback (PlaywrightError ''Executable does not exist'')]\<rparr>)"
  by (simp add: get_advertiser_id_def run_def get_advertiser_id_body_no_browser lower_nike
      start_io_def)

text \<open>
  Claim C4.  When the name in the request is not empty and \<open>get_advertiser_id\<close> returns
  \<open>None\<close>, the endpoint answers with status 500, not 404: the HTTP exception with status
  404 it raises for the missing identifier is caught by its own handler for \<open>Exception\<close>,
  logged, and replaced by one with status 500 whose detail holds the text of the first.
\<close>

theorem not_found_is_500:
  assumes "strip (advertiser_name request) \<noteq> []"
    and "fst (get_advertiser_id w (strip (advertiser_name request)) i) = Inr None"
  shows "post_scrape w request i =
     (HTTPError 500 (''Error during scraping: 404: No advertiser ID found for ''
         @ sq (strip (advertiser_name request))),
      \<lparr>clock = clock (snd (get_advertiser_id w (strip (advertiser_name request)) i)),
       trace = trace (snd (get_advertiser_id w (strip (advertiser_name request)) i)) @
         [Log ERROR (''Error during scraping: 404: No advertiser ID found for ''
            @ sq (strip (advertiser_name request))),
          LogTraceback (HTTPException 404 (''No advertiser ID found for ''
            @ sq (strip (advertiser_name request))))]\<rparr>)"
proof -
  let ?name = "strip (advertiser_name request)"
  obtain i1 where g: "get_advertiser_id w ?name i = (Inr None, i1)"
    using assms(2) by (cases "get_advertiser_id w ?name i") auto
  show ?thesis
    using assms(1)
    by (simp add: post_scrape_def scrape_advertiser_endpoint_def stmt_defs g io_eta
        endpoint_locals_init_def str_nat_404)
qed

theorem not_found_is_500_witness:
  "strip (advertiser_name \<lparr>advertiser_name = ''nike''\<rparr>) \<noteq> [] \<and>
   fst (get_advertiser_id no_browser_world (strip (advertiser_name \<lparr>advertiser_name = ''nike''\<rparr>))
     start_io) = Inr None \<and>
   fst (post_scrape no_browser_world \<lparr>advertiser_name = ''nike''\<rparr> start_io) =
     HTTPError 500 (''Error during scraping: 404: No advertiser ID found for '' @ sq ''nike'')"
proof -
  have s: "strip (advertiser_name \<lparr>advertiser_name = ''nike''\<rparr>) = ''nike''"
    by (simp add: strip_nike)
  have g: "fst (get_advertiser_id no_browser_world ''nike'' start_io) = Inr None"
    by (simp add: get_advertiser_id_no_browser_nike)
  show ?thesis
    using not_found_is_500[of "\<lparr>advertiser_name = ''nike''\<rparr>" no_browser_world start_io] s g
    by simp
qed


section \<open>What happens to exceptions\<close>


lemma check_advertiser_videos_handler_returns:
  "check_advertiser_videos_handler e s =
     (Return (False, None),
      s\<lparr>events := events s @
         [Log ERROR (''Error checking for videos: '' @ str_exn e), LogTraceback e]\<rparr>)"
  by (simp add: check_advertiser_videos_handler_def exec)

text \<open>The closing statement of both functions.\<close>

lemma close_if_browser:
  "if_then has_browser (unit_call w Close) s =
     (if has_browser (locals s) then
        (case fails w (now s) of
           Some e \<Rightarrow> (Raise e, s\<lparr>now := Suc (now s), events := events s @ [Browser Close]\<rparr>)
         | None \<Rightarrow> (Normal, s\<lparr>now := Suc (now s), events := events s @ [Browser Close]\<rparr>))
      else (Normal, s))"
  by (simp add: exec split: option.splits)

text \<open>
  What the outer \<open>try\<close> with its handler and its \<open>finally\<close> clause makes of the
  outcome of its body.
\<close>

lemma guarded_session:
  assumes "body s = (out, s1)"
    and "\<And>e s. handler e s = (Return ret, s\<lparr>events := events s @ logs e\<rparr>)"
  shows "try_finally (try_except body is_Exception handler)
           (if_then has_browser (unit_call w Close)) s =
     (let out1 = (case out of Raise e \<Rightarrow> if is_Exception e then Return ret else Raise e
                  | other \<Rightarrow> other);
          s2 = (case out of Raise e \<Rightarrow> if is_Exception e
                     then s1\<lparr>events := events s1 @ logs e\<rparr> else s1
                | other \<Rightarrow> s1)
      in if has_browser (locals s2) then
           (case fails w (now s2) of
              Some e \<Rightarrow> (Raise e, s2\<lparr>now := Suc (now s2), events := events s2 @ [Browser Close]\<rparr>)
            | None \<Rightarrow> (out1, s2\<lparr>now := Suc (now s2), events := events s2 @ [Browser Close]\<rparr>))
         else (out1, s2))"
  using assms
  by (cases out) (simp_all add: try_finally_def try_except_def close_if_browser Let_def
      split: option.splits)



lemma check_advertiser_videos_body_unknown:
  assumes "aid \<noteq> ''AR14017378248766259201''"
  shows "check_advertiser_videos_body w aid
       \<lparr>now = clock i, events = trace i, locals = video_locals_init\<rparr> =
     try_finally (try_except (check_advertiser_videos_session w aid) is_Exception
         check_advertiser_videos_handler)
       (if_then v_browser (unit_call w Close)) (check_advertiser_videos_entry aid i)"
  using assms
  by (simp add: check_advertiser_videos_body_def step seq_end known_video_counts_literal_def
      check_advertiser_videos_entry_def video_locals_init_def)


lemma check_advertiser_videos_by_session:
  assumes "aid \<noteq> ''AR14017378248766259201''"
    and "check_advertiser_videos_session w aid (check_advertiser_videos_entry aid i) = (out, s1)"
  shows "check_advertiser_videos w aid i =
     (let s2 = (case out of Raise e \<Rightarrow> if is_Exception e
                     then s1\<lparr>events := events s1 @
                       [Log ERROR (''Error checking for videos: '' @ str_exn e), LogTraceback e]\<rparr>
                     else s1
                | other \<Rightarrow> s1);
          res = (case out of Raise e \<Rightarrow> if is_Exception e then Inr (False, None) else Inl e
                 | Return r \<Rightarrow> Inr r | other \<Rightarrow> Inr (False, None))
      in if v_browser (locals s2) then
           (case fails w (now s2) of
              Some e \<Rightarrow> (Inl e, \<lparr>clock = Suc (now s2), trace = events s2 @ [Browser Close]\<rparr>)
            | None \<Rightarrow> (res, \<lparr>clock = Suc (now s2), trace = events s2 @ [Browser Close]\<rparr>))
         else (res, \<lparr>clock = now s2, trace = events s2\<rparr>))"
proof -
  note G = guarded_session[where body = "check_advertiser_videos_session w aid"
      and handler = check_advertiser_videos_handler and ret = "(False, None)" and w = w
      and has_browser = v_browser
      and logs = "\<lambda>e. [Log ERROR (''Error checking for videos: '' @ str_exn e), LogTraceback e]",
      OF assms(2) check_advertiser_videos_handler_returns]
  show ?thesis
    unfolding check_advertiser_videos_def run_def
      check_advertiser_videos_body_unknown[OF assms(1)] G
    by (cases out) (simp_all add: Let_def split: option.splits)
qed



lemma check_advertiser_videos_raise:
  assumes "fst (check_advertiser_videos w aid i) = Inl e"
  shows "raised_by_close w e (snd (check_advertiser_videos w aid i)) \<or> \<not> is_Exception e"
proof (cases "aid = ''AR14017378248766259201''")
  case True
  with assms show ?thesis by (simp add: check_advertiser_videos_known)
next
  case False
  obtain out s1 where
    S: "check_advertiser_videos_session w aid (check_advertiser_videos_entry aid i) = (out, s1)"
    by (cases "check_advertiser_videos_session w aid (check_advertiser_videos_entry aid i)")
  show ?thesis
    using assms unfolding check_advertiser_videos_by_session[OF False S]
    by (cases out)
       (auto simp: Let_def raised_by_close_def split: option.splits if_splits)
qed


lemma check_advertiser_videos_caught:
  assumes "aid \<noteq> ''AR14017378248766259201''"
    and "check_advertiser_videos_session w aid (check_advertiser_videos_entry aid i) = (Raise e, s1)"
    and "is_Exception e"
    and "v_browser (locals s1) \<longrightarrow> fails w (now s1) = None"
  shows "fst (check_advertiser_videos w aid i) = Inr (False, None) \<and>
         Log ERROR (''Error checking for videos: '' @ str_exn e)
           \<in> set (trace (snd (check_advertiser_videos w aid i)))"
  using assms(3,4) unfolding check_advertiser_videos_by_session[OF assms(1,2)]
  by (auto simp: Let_def)



lemma endpoint_returns:
  assumes "strip (advertiser_name request) \<noteq> []"
    and "get_advertiser_id w (strip (advertiser_name request)) i = (Inr (Some aid), i1)"
    and "aid \<noteq> []"
    and "check_advertiser_videos w aid i1 = (Inr (hv, vc), i2)"
  shows "scrape_advertiser_endpoint w request i =
     (Inr \<lparr>advertiser_google_id = Some aid, has_videos = Some hv, video_count = vc\<rparr>, i2)"
  using assms
  by (simp add: scrape_advertiser_endpoint_def stmt_defs io_eta endpoint_locals_init_def)

lemma endpoint_not_found:
  assumes "strip (advertiser_name request) \<noteq> []"
    and "get_advertiser_id w (strip (advertiser_name request)) i = (Inr v, i1)"
    and "\<not> truthy v"
  shows "fst (scrape_advertiser_endpoint w request i) =
     Inl (HTTPException 500 (''Error during scraping: 404: No advertiser ID found for ''
        @ sq (strip (advertiser_name request))))"
  using assms
  by (simp add: scrape_advertiser_endpoint_def stmt_defs io_eta endpoint_locals_init_def
      str_nat_404)









section \<open>The pair returned by check_advertiser_videos\<close>

lemma calls_succeeded_refl: "calls_succeeded w a a"
  by (simp add: calls_succeeded_def)

lemma calls_succeeded_step:
  "fails w a = None \<Longrightarrow> calls_succeeded w (Suc a) b \<Longrightarrow> calls_succeeded w a b"
  unfolding calls_succeeded_def
  by (metis Suc_leI atLeastLessThan_iff le_neq_implies_less)

lemma calls_succeeded_snoc:
  "calls_succeeded w a b \<Longrightarrow> fails w b = None \<Longrightarrow> calls_succeeded w a (Suc b)"
  unfolding calls_succeeded_def
  by (metis atLeastLessThan_iff less_Suc_eq)

lemma calls_succeededD:
  "calls_succeeded w a b \<Longrightarrow> a \<le> t \<Longrightarrow> t < b \<Longrightarrow> fails w t = None"
  by (simp add: calls_succeeded_def)

lemma calls_succeeded_Suc:
  "calls_succeeded w a (Suc b) \<longleftrightarrow> (a \<le> b \<longrightarrow> fails w b = None) \<and> calls_succeeded w a b"
  unfolding calls_succeeded_def
  by (metis atLeastLessThan_iff less_Suc_eq)

lemma calls_succeeded_5:
  assumes "fails w a = None" "fails w (Suc a) = None" "fails w (Suc (Suc a)) = None"
    "fails w (Suc (Suc (Suc a))) = None" "fails w (Suc (Suc (Suc (Suc a)))) = None"
    "calls_succeeded w (Suc (Suc (Suc (Suc (Suc a))))) b"
  shows "calls_succeeded w a b"
  by (rule calls_succeeded_step[OF assms(1) calls_succeeded_step[OF assms(2)
        calls_succeeded_step[OF assms(3) calls_succeeded_step[OF assms(4)
        calls_succeeded_step[OF assms(5) assms(6)]]]]])

lemma page_postcondition:
  assumes "check_advertiser_videos_page w aid s = (out, s')"
  shows "(\<exists>e. out = Raise e) \<or>
         (\<exists>n. out = Return (0 < n, Some n) \<and> calls_succeeded w (now s) (now s'))"
  using assms
  by (auto simp: check_advertiser_videos_page_def step seq_end return_def
      calls_succeeded_Suc calls_succeeded_refl split: option.splits)

lemma guarded_page_postcondition:
  assumes "try_except (check_advertiser_videos_page w aid) is_Exception
      check_advertiser_videos_handler s = (out, s')"
  shows "(\<exists>e. out = Raise e \<and> \<not> is_Exception e) \<or> out = Return (False, None) \<or>
         (\<exists>n. out = Return (0 < n, Some n) \<and> calls_succeeded w (now s) (now s'))"
proof -
  obtain o1 s1 where p: "check_advertiser_videos_page w aid s = (o1, s1)"
    by (cases "check_advertiser_videos_page w aid s")
  from page_postcondition[OF p] show ?thesis
  proof
    assume "\<exists>e. o1 = Raise e"
    then obtain e where "o1 = Raise e" ..
    with p assms show ?thesis
      by (cases "is_Exception e")
         (auto simp: try_except_def check_advertiser_videos_handler_returns)
  next
    assume "\<exists>n. o1 = Return (0 < n, Some n) \<and> calls_succeeded w (now s) (now s1)"
    with p assms show ?thesis
      by (auto simp: try_except_def)
  qed
qed

lemma session_postcondition:
  assumes "check_advertiser_videos_session w aid s = (out, s')"
  shows "(\<exists>e. out = Raise e) \<or> out = Return (False, None) \<or>
         (\<exists>n. out = Return (0 < n, Some n) \<and> calls_succeeded w (now s) (now s'))"
proof -
  let ?G = "try_except (check_advertiser_videos_page w aid) is_Exception
      check_advertiser_videos_handler"
  have G: "?G s5 = (o6, s6) \<Longrightarrow>
         (\<exists>e. o6 = Raise e \<and> \<not> is_Exception e) \<or> o6 = Return (False, None) \<or>
         (\<exists>n. o6 = Return (0 < n, Some n) \<and> calls_succeeded w (now s5) (now s6))" for s5 o6 s6
    by (rule guarded_page_postcondition)
  show ?thesis
    using assms
    apply (simp add: check_advertiser_videos_session_def step seq_end split: option.splits)
    apply (drule G)
    apply (auto dest: calls_succeeded_5)
    done
qed


lemma check_advertiser_videos_pairs:
  assumes "check_advertiser_videos w aid i = (Inr p, i')"
  shows "(p = (False, None) \<or>
          (\<exists>n. p = (0 < n, Some n) \<and> calls_succeeded w (clock i) (clock i')))"
proof (cases "aid = ''AR14017378248766259201''")
  case True
  with assms show ?thesis
    by (auto simp: check_advertiser_videos_known calls_succeeded_refl)
next
  case False
  obtain out s1 where
    S: "check_advertiser_videos_session w aid (check_advertiser_videos_entry aid i) = (out, s1)"
    by (cases "check_advertiser_videos_session w aid (check_advertiser_videos_entry aid i)")
  have n: "now (check_advertiser_videos_entry aid i) = clock i"
    by (simp add: check_advertiser_videos_entry_def)
  from session_postcondition[OF S] show ?thesis
  proof (elim disjE exE conjE)
    fix e assume "out = Raise e"
    with assms show ?thesis
      unfolding check_advertiser_videos_by_session[OF False S]
      by (auto simp: Let_def split: option.splits if_splits)
  next
    assume "out = Return (False, None)"
    with assms show ?thesis
      unfolding check_advertiser_videos_by_session[OF False S]
      by (auto simp: Let_def split: option.splits if_splits)
  next
    fix n assume o: "out = Return (0 < n, Some n)"
      and c: "calls_succeeded w (now (check_advertiser_videos_entry aid i)) (now s1)"
    from assms o c n show ?thesis
      unfolding check_advertiser_videos_by_session[OF False S]
      by (auto simp: Let_def calls_succeeded_Suc split: option.splits if_splits)
  qed
qed

lemma check_advertiser_videos_lost_connection:
  "check_advertiser_videos lost_connection_world ''AR123'' start_io =
     (Inl (PlaywrightError ''Connection lost''),
      \<lparr>clock = 4,
       trace = [Log INFO ''Checking for videos for advertiser ID: AR123'',
                Browser Start, Browser Launch, Browser NewContext,
                Log ERROR ''Error checking for videos: Connection lost'',
                LogTraceback (PlaywrightError ''Connection lost''),
                Browser Close]\<rparr>)"
  by (simp add: check_advertiser_videos_def run_def check_advertiser_videos_body_def
      check_advertiser_videos_session_def check_advertiser_videos_handler_def exec
      try_finally_def try_except_def fails_lost_connection_world
      known_video_counts_literal_def video_locals_init_def start_io_def
      cong: prod.case_cong_weak)

text \<open>
  Claim C6 says that on any error \<open>check_advertiser_videos\<close> returns
  \<open>(False, None)\<close>.  In a browser that is launched and then lost the handler does
  return that pair, but the closing call in the \<open>finally\<close> clause (line 869) raises
  after it, and the function raises instead of returning.
\<close>

theorem check_advertiser_videos_error_escapes:
  "fst (check_advertiser_videos lost_connection_world ''AR123'' start_io) =
     Inl (PlaywrightError ''Connection lost'')"
  by (simp add: check_advertiser_videos_lost_connection)

text \<open>
  Claim C6, amended.  In every pair that \<open>check_advertiser_videos\<close> returns,
  \<open>has_videos\<close> holds exactly when \<open>video_count\<close> is an integer greater than
  zero, so neither \<open>(True, None)\<close> nor \<open>(True, 0)\<close> is returned.  When a call to
  the browser raised during the run and the function returns, it returns
  \<open>(False, None)\<close>.  It does return that pair when an \<open>Exception\<close> leaves the body
  of the outer \<open>try\<close> and the closing call does not raise; it raises only when the
  closing call raised or the exception is no \<open>Exception\<close>.
\<close>

theorem check_advertiser_videos_invariant:
  "(\<forall>hv vc. fst (check_advertiser_videos w aid i) = Inr (hv, vc) \<longrightarrow>
      (hv \<longleftrightarrow> (\<exists>n. vc = Some n \<and> 0 < n))) \<and>
   (\<forall>p t. fst (check_advertiser_videos w aid i) = Inr p \<and>
      clock i \<le> t \<and> t < clock (snd (check_advertiser_videos w aid i)) \<and>
      fails w t \<noteq> None \<longrightarrow> p = (False, None)) \<and>
   (\<forall>e s1. aid \<noteq> ''AR14017378248766259201'' \<and>
      check_advertiser_videos_session w aid (check_advertiser_videos_entry aid i) = (Raise e, s1) \<and>
      is_Exception e \<and> (v_browser (locals s1) \<longrightarrow> fails w (now s1) = None) \<longrightarrow>
      fst (check_advertiser_videos w aid i) = Inr (False, None)) \<and>
   (\<forall>e. fst (check_advertiser_videos w aid i) = Inl e \<longrightarrow>
      raised_by_close w e (snd (check_advertiser_videos w aid i)) \<or> \<not> is_Exception e)"
proof -
  obtain r i' where R: "check_advertiser_videos w aid i = (r, i')"
    by (cases "check_advertiser_videos w aid i")
  have p1: "\<forall>hv vc. fst (check_advertiser_videos w aid i) = Inr (hv, vc) \<longrightarrow>
      (hv \<longleftrightarrow> (\<exists>n. vc = Some n \<and> 0 < n))"
  proof (intro allI impI)
    fix hv vc assume "fst (check_advertiser_videos w aid i) = Inr (hv, vc)"
    with R have "check_advertiser_videos w aid i = (Inr (hv, vc), i')" by simp
    from check_advertiser_videos_pairs[OF this]
    show "hv \<longleftrightarrow> (\<exists>n. vc = Some n \<and> 0 < n)" by auto
  qed
  have p2: "\<forall>p t. fst (check_advertiser_videos w aid i) = Inr p \<and>
      clock i \<le> t \<and> t < clock (snd (check_advertiser_videos w aid i)) \<and>
      fails w t \<noteq> None \<longrightarrow> p = (False, None)"
  proof (intro allI impI)
    fix p t
    assume a: "fst (check_advertiser_videos w aid i) = Inr p \<and>
      clock i \<le> t \<and> t < clock (snd (check_advertiser_videos w aid i)) \<and>
      fails w t \<noteq> None"
    with R have "check_advertiser_videos w aid i = (Inr p, i')" by simp
    from check_advertiser_videos_pairs[OF this] a R
    show "p = (False, None)"
      by (auto dest: calls_succeededD)
  qed
  have p3: "\<forall>e s1. aid \<noteq> ''AR14017378248766259201'' \<and>
      check_advertiser_videos_session w aid (check_advertiser_videos_entry aid i) = (Raise e, s1) \<and>
      is_Exception e \<and> (v_browser (locals s1) \<longrightarrow> fails w (now s1) = None) \<longrightarrow>
      fst (check_advertiser_videos w aid i) = Inr (False, None)"
    using check_advertiser_videos_caught by blast
  have p4: "\<forall>e. fst (check_advertiser_videos w aid i) = Inl e \<longrightarrow>
      raised_by_close w e (snd (check_advertiser_videos w aid i)) \<or> \<not> is_Exception e"
    using check_advertiser_videos_raise by blast
  show ?thesis
    apply (intro conjI)
       apply (rule p1)
      apply (rule p2)
     apply (rule p3)
    apply (rule p4)
    done
qed


lemma check_advertiser_videos_no_browser:
  "check_advertiser_videos no_browser_world ''AR123'' start_io =
     (Inr (False, None),
      \<lparr>clock = 1,
       trace = [Log INFO ''Checking for videos for advertiser ID: AR123'',
                Browser Start,
                Log ERROR ''Error checking for videos: Executable does not exist'',
                LogTraceback (PlaywrightError ''Executable does not exist'')]\<rparr>)"
  by (simp add: check_advertiser_videos_def run_def check_advertiser_videos_body_def
      check_advertiser_videos_session_def check_advertiser_videos_handler_def exec
      try_finally_def try_except_def fails_no_browser_world
      known_video_counts_literal_def video_locals_init_def start_io_def
      cong: prod.case_cong_weak)

theorem check_advertiser_videos_invariant_witness:
  "fst (check_advertiser_videos still_world ''AR14017378248766259201'' start_io) =
     Inr (True, Some 34) \<and>
   (\<exists>n::int. Some 34 = Some n \<and> 0 < n) \<and>
   clock start_io \<le> 0 \<and>
   0 < clock (snd (check_advertiser_videos no_browser_world ''AR123'' start_io)) \<and>
   fails no_browser_world 0 \<noteq> None \<and>
   fst (check_advertiser_videos no_browser_world ''AR123'' start_io) = Inr (False, None) \<and>
   fst (check_advertiser_videos lost_connection_world ''AR123'' start_io) =
     Inl (PlaywrightError ''Connection lost'') \<and>
   raised_by_close lost_connection_world (PlaywrightError ''Connection lost'')
     (snd (check_advertiser_videos lost_connection_world ''AR123'' start_io))"
proof -
  have k: "fst (check_advertiser_videos still_world ''AR14017378248766259201'' start_io) =
     Inr (True, Some 34)"
    by (simp add: check_advertiser_videos_known)
  note A = check_advertiser_videos_invariant[of still_world "''AR14017378248766259201''" start_io]
  from A k have 1: "\<exists>n::int. Some 34 = Some n \<and> 0 < n"
    by blast
  have c: "clock start_io \<le> 0" by (simp add: start_io_def)
  have d: "0 < clock (snd (check_advertiser_videos no_browser_world ''AR123'' start_io))"
    by (simp add: check_advertiser_videos_no_browser)
  have f: "fails no_browser_world 0 \<noteq> None" by (simp add: fails_no_browser_world)
  have "\<exists>p. fst (check_advertiser_videos no_browser_world ''AR123'' start_io) = Inr p"
    by (auto simp add: check_advertiser_videos_no_browser)
  then obtain p where
    p: "fst (check_advertiser_videos no_browser_world ''AR123'' start_io) = Inr p" ..
  note B = check_advertiser_videos_invariant[of no_browser_world "''AR123''" start_io]
  from B p c d f have "p = (False, None)" by blast
  with p have 2: "fst (check_advertiser_videos no_browser_world ''AR123'' start_io) =
     Inr (False, None)" by simp
  have l: "fst (check_advertiser_videos lost_connection_world ''AR123'' start_io) =
     Inl (PlaywrightError ''Connection lost'')"
    by (simp add: check_advertiser_videos_lost_connection)
  note C = check_advertiser_videos_invariant[of lost_connection_world "''AR123''" start_io]
  from C l have 3: "raised_by_close lost_connection_world (PlaywrightError ''Connection lost'')
     (snd (check_advertiser_videos lost_connection_world ''AR123'' start_io))"
    by (metis is_Exception.simps(1))
  from k 1 c d f 2 l 3 show ?thesis by blast
qed

end
